theory Spec2Isabelle
  imports Complex_Main
begin

section \<open>Values exchanged with the routes\<close>

text \<open>
  The routes of \<^verbatim>\<open>app/routes/auth_routes.py\<close> read a JSON request body, call the
  Supabase client and answer with \<^verbatim>\<open>jsonify(...), status\<close>. A JSON value is the
  Python value \<^verbatim>\<open>request.get_json()\<close> yields: \<^verbatim>\<open>None\<close>, a bool, an int, a (finite)
  float, a str, a list or a dict. A dict is an association list; the first binding of a
  key is the one \<^verbatim>\<open>dict.get\<close> sees.

  Strings are lists of 8-bit characters: messages and patterns are ASCII text.
\<close>

datatype json =
    JNull
  | JBool bool
  | JInt int
  | JFloat rat
  | JStr string
  | JList "json list"
  | JObj "(string \<times> json) list"

type_synonym dict = "(string \<times> json) list"

text \<open>Python truthiness, as \<^verbatim>\<open>all([...])\<close>, \<^verbatim>\<open>not x\<close> and \<^verbatim>\<open>x or y\<close> test it.\<close>

fun truthy :: "json \<Rightarrow> bool" where
  "truthy JNull = False"
| "truthy (JBool b) = b"
| "truthy (JInt i) = (i \<noteq> 0)"
| "truthy (JFloat r) = (r \<noteq> 0)"
| "truthy (JStr s) = (s \<noteq> [])"
| "truthy (JList xs) = (xs \<noteq> [])"
| "truthy (JObj kvs) = (kvs \<noteq> [])"

text \<open>\<^verbatim>\<open>data.get(k)\<close>: the value bound to \<open>k\<close>, \<^verbatim>\<open>None\<close> when the key is absent.\<close>

definition get :: "dict \<Rightarrow> string \<Rightarrow> json" where
  "get d k = (case map_of d k of None \<Rightarrow> JNull | Some v \<Rightarrow> v)"

text \<open>\<^verbatim>\<open>x or y\<close>.\<close>

definition py_or :: "json \<Rightarrow> json \<Rightarrow> json" where
  "py_or x y = (if truthy x then x else y)"

text \<open>\<^verbatim>\<open>all(xs)\<close>.\<close>

definition py_all :: "json list \<Rightarrow> bool" where
  "py_all xs = list_all truthy xs"

record response =
  status :: nat
  body :: json

text \<open>\<^verbatim>\<open>return jsonify({"error": msg}), code\<close>.\<close>

definition jsonify_error :: "string \<Rightarrow> nat \<Rightarrow> response" where
  "jsonify_error msg code = \<lparr>status = code, body = JObj [(''error'', JStr msg)]\<rparr>"

section \<open>Strings\<close>

text \<open>\<^verbatim>\<open>str.lower()\<close> on ASCII text: the letters A to Z change, nothing else does.\<close>

definition lower_char :: "char \<Rightarrow> char" where
  "lower_char c =
     (case map_of (zip ''ABCDEFGHIJKLMNOPQRSTUVWXYZ'' ''abcdefghijklmnopqrstuvwxyz'') c of
        Some d \<Rightarrow> d
      | None \<Rightarrow> c)"

definition lower :: "string \<Rightarrow> string" where
  "lower s = map lower_char s"

fun startswith :: "string \<Rightarrow> string \<Rightarrow> bool" where
  "startswith s [] = True"
| "startswith [] (p # ps) = False"
| "startswith (c # cs) (p # ps) = (c = p \<and> startswith cs ps)"

text \<open>\<^verbatim>\<open>p in s\<close> for two strings: \<open>p\<close> occurs in \<open>s\<close> as a contiguous piece.\<close>

fun contains :: "string \<Rightarrow> string \<Rightarrow> bool" where
  "contains p [] = (p = [])"
| "contains p (c # cs) = (startswith (c # cs) p \<or> contains p cs)"

text \<open>\<^verbatim>\<open>s.split(sep)\<close> with a one-character separator: empty pieces are kept.\<close>

fun py_split :: "char \<Rightarrow> string \<Rightarrow> string list" where
  "py_split sep [] = [[]]"
| "py_split sep (c # cs) =
     (if c = sep then [] # py_split sep cs
      else (case py_split sep cs of
              [] \<Rightarrow> [[c]]
            | x # xs \<Rightarrow> (c # x) # xs))"

section \<open>Exceptions\<close>

text \<open>
  Every handler catches \<^verbatim>\<open>Exception as e\<close> and looks at \<^verbatim>\<open>str(e)\<close> only, so a
  raised exception is its message: \<open>Inl msg\<close>. \<open>Inr v\<close> is a normal return.
\<close>

type_synonym 'a raised = "string + 'a"

text \<open>\<^verbatim>\<open>xs[i]\<close> on a list: IndexError out of range.\<close>

definition index :: "'a list \<Rightarrow> nat \<Rightarrow> 'a raised" where
  "index xs i = (if i < length xs then Inr (xs ! i) else Inl ''list index out of range'')"

text \<open>\<^verbatim>\<open>d[k]\<close> on a dict: KeyError, whose \<^verbatim>\<open>str\<close> is the quoted key.\<close>

definition subscript :: "dict \<Rightarrow> string \<Rightarrow> json raised" where
  "subscript d k =
     (case map_of d k of
        None \<Rightarrow> Inl ([CHR 0x27] @ k @ [CHR 0x27])
      | Some v \<Rightarrow> Inr v)"

text \<open>The message of the AttributeError raised by \<^verbatim>\<open>None.attr\<close>.\<close>

definition none_has_no_attribute :: "string \<Rightarrow> string" where
  "none_has_no_attribute attr =
     [CHR 0x27] @ ''NoneType'' @ [CHR 0x27] @ '' object has no attribute ''
       @ [CHR 0x27] @ attr @ [CHR 0x27]"

text \<open>\<^verbatim>\<open>type(v).__name__\<close> for the value of a parsed JSON body.\<close>

fun type_name :: "json \<Rightarrow> string" where
  "type_name JNull = ''NoneType''"
| "type_name (JBool b) = ''bool''"
| "type_name (JInt i) = ''int''"
| "type_name (JFloat r) = ''float''"
| "type_name (JStr s) = ''str''"
| "type_name (JList xs) = ''list''"
| "type_name (JObj kvs) = ''dict''"

text \<open>
  The attribute lookup \<^verbatim>\<open>data.get\<close> on the value \<^verbatim>\<open>request.get_json()\<close> returned: a dict
  has the method; \<^verbatim>\<open>None\<close>, a bool, a number, a str and a list have none, and the lookup
  raises AttributeError.
\<close>

definition getattr_get :: "json \<Rightarrow> dict raised" where
  "getattr_get v =
     (case v of
        JObj d \<Rightarrow> Inr d
      | _ \<Rightarrow> Inl ([CHR 0x27] @ type_name v @ [CHR 0x27] @ '' object has no attribute ''
                  @ [CHR 0x27] @ ''get'' @ [CHR 0x27]))"

section \<open>The Supabase client\<close>

text \<open>
  The client is imported (\<^verbatim>\<open>get_supabase_client()\<close>), not defined in the repository,
  so it is a parameter of every route: a record of operations over a platform state
  \<open>'s\<close>, each of which returns normally or raises, and yields the next platform state.
  The table is always \<^verbatim>\<open>users\<close> and every filter is \<^verbatim>\<open>.eq("auth_uid", v)\<close>.
\<close>

record auth_user =
  user_id :: string
  user_email :: string

record auth_session =
  access_token :: string

text \<open>The result of \<^verbatim>\<open>sign_up\<close>, \<^verbatim>\<open>sign_in_with_password\<close> and \<^verbatim>\<open>get_user\<close>:
  \<^verbatim>\<open>.user\<close> and \<^verbatim>\<open>.session\<close>, each possibly \<^verbatim>\<open>None\<close>.\<close>

record auth_response =
  user :: "auth_user option"
  session :: "auth_session option"

text \<open>
  The result of \<^verbatim>\<open>insert(...).execute()\<close> and \<^verbatim>\<open>update(...).execute()\<close>. The route
  tests \<^verbatim>\<open>hasattr(response, 'error') and response.error\<close>: \<open>None\<close> is an object
  without the attribute, \<open>Some None\<close> the attribute set to \<^verbatim>\<open>None\<close>, \<open>Some (Some m)\<close>
  the attribute set to the string \<open>m\<close>.
\<close>

record api_response =
  error_attr :: "string option option"

record 's supabase_client =
  sign_up :: "json \<Rightarrow> json \<Rightarrow> 's \<Rightarrow> auth_response raised \<times> 's"
  sign_in_with_password :: "json \<Rightarrow> json \<Rightarrow> 's \<Rightarrow> auth_response raised \<times> 's"
  get_user :: "string \<Rightarrow> 's \<Rightarrow> auth_response option raised \<times> 's"
  select_eq :: "string \<Rightarrow> string \<Rightarrow> 's \<Rightarrow> dict list raised \<times> 's"
  select_single :: "string \<Rightarrow> 's \<Rightarrow> dict option raised \<times> 's"
  update_eq :: "dict \<Rightarrow> string \<Rightarrow> 's \<Rightarrow> api_response raised \<times> 's"
  insert_row :: "dict \<Rightarrow> 's \<Rightarrow> api_response raised \<times> 's"

text \<open>The calls a route makes on the client, in the order it makes them.\<close>

datatype call =
    Auth_sign_up json json
  | Auth_sign_in_with_password json json
  | Auth_get_user string
  | Table_select string string
  | Table_select_single string
  | Table_update dict string
  | Table_insert dict

text \<open>
  What a request can change: the platform's state, the calls made on the client, and
  the lines written by \<^verbatim>\<open>print\<close>.
\<close>

record 's world =
  backend :: 's
  calls :: "call list"
  printed :: "string list"

definition external :: "call \<Rightarrow> ('s \<Rightarrow> 'a raised \<times> 's) \<Rightarrow> 's world \<Rightarrow> 'a raised \<times> 's world" where
  "external c f w =
     (case f (backend w) of
        (r, s') \<Rightarrow> (r, w\<lparr>backend := s', calls := calls w @ [c]\<rparr>))"

definition print :: "string \<Rightarrow> 's world \<Rightarrow> 's world" where
  "print line w = w\<lparr>printed := printed w @ [line]\<rparr>"

section \<open>POST /signup\<close>

text \<open>The body of the \<^verbatim>\<open>try\<close> block of \<^verbatim>\<open>signup\<close>.\<close>

definition signup_try ::
  "'s supabase_client \<Rightarrow> json \<Rightarrow> json \<Rightarrow> json \<Rightarrow> json \<Rightarrow> json \<Rightarrow> 's world
     \<Rightarrow> response raised \<times> 's world" where
  "signup_try sb email password first_name last_name role w =
     (case external (Auth_sign_up email password) (sign_up sb email password) w of
        (Inl e, w1) \<Rightarrow> (Inl e, w1)
      | (Inr user_response, w1) \<Rightarrow>
          (case user user_response of
             None \<Rightarrow>
               (Inr (jsonify_error ''Supabase signup failed to return user data.'' 400), w1)
           | Some u \<Rightarrow>
               (let uid = user_id u in
                case external (Table_select ''auth_uid'' uid) (select_eq sb ''auth_uid'' uid) w1 of
                  (Inl e, w2) \<Rightarrow> (Inl e, w2)
                | (Inr profile_data, w2) \<Rightarrow>
                    (let user_profile_exists = (length profile_data > 0);
                         profile_payload =
                           [(''first_name'', first_name), (''last_name'', last_name),
                            (''role'', role)];
                         insert_payload = profile_payload @ [(''auth_uid'', JStr uid)]
                     in case (if user_profile_exists
                              then external (Table_update profile_payload uid)
                                     (update_eq sb profile_payload uid) w2
                              else external (Table_insert insert_payload)
                                     (insert_row sb insert_payload) w2) of
                          (Inl e, w3) \<Rightarrow> (Inl e, w3)
                        | (Inr resp, w3) \<Rightarrow>
                            (case error_attr resp of
                               Some (Some err) \<Rightarrow>
                                 (if err \<noteq> []
                                  then (Inr (jsonify_error
                                               ''Profile creation/update failed. Please contact support.''
                                               500),
                                        print (''Database operation failed after successful Auth: ''
                                                 @ err) w3)
                                  else (Inr \<lparr>status = 201,
                                             body = JObj [(''message'', JStr ''User registered successfully''),
                                                          (''auth_uid'', JStr uid)]\<rparr>, w3))
                             | _ \<Rightarrow>
                                 (Inr \<lparr>status = 201,
                                        body = JObj [(''message'', JStr ''User registered successfully''),
                                                     (''auth_uid'', JStr uid)]\<rparr>, w3))))))"

text \<open>The first test of the \<^verbatim>\<open>except\<close> block: the existing-user patterns, looked for
  in the lowercased message.\<close>

definition signup_existing_user :: "string \<Rightarrow> bool" where
  "signup_existing_user error_message_lower \<longleftrightarrow>
     contains ''user already exists'' error_message_lower
     \<or> contains ''already registered'' error_message_lower
     \<or> contains (''insert or update on table '' @ [CHR 0x22] @ ''users'' @ [CHR 0x22]
                   @ '' violates foreign key constraint'') error_message_lower
     \<or> contains ''key (auth_uid) is not present'' error_message_lower"

text \<open>The second test: the client-library patterns, looked for in the message as it is.\<close>

definition signup_client_library_error :: "string \<Rightarrow> bool" where
  "signup_client_library_error error_message \<longleftrightarrow>
     contains (''has no attribute '' @ [CHR 0x27] @ ''error'' @ [CHR 0x27]) error_message
     \<or> contains (''has no attribute '' @ [CHR 0x27] @ ''user'' @ [CHR 0x27]) error_message"

text \<open>The \<^verbatim>\<open>except Exception as e\<close> block of \<^verbatim>\<open>signup\<close>.\<close>

definition signup_except :: "string \<Rightarrow> 's world \<Rightarrow> response \<times> 's world" where
  "signup_except error_message w =
     (let error_message_lower = lower error_message in
      if signup_existing_user error_message_lower
      then (jsonify_error ''This email is already registered. Please sign in.'' 409, w)
      else if signup_client_library_error error_message
      then (jsonify_error ''This email is already registered. Please sign in.'' 409, w)
      else (jsonify_error ''An internal server error occurred during registration.'' 500,
            print (''Unexpected server-side error during signup: '' @ error_message) w))"

text \<open>
  The route. \<open>data\<close> is the value \<^verbatim>\<open>request.get_json()\<close> returned. The five
  \<^verbatim>\<open>data.get(...)\<close> and the test of the required fields stand before the \<^verbatim>\<open>try\<close>, so
  an exception raised there leaves the route unhandled: the result \<open>Inl msg\<close>. \<open>Inr r\<close>
  is the response the route returns.
\<close>

definition signup :: "'s supabase_client \<Rightarrow> json \<Rightarrow> 's world \<Rightarrow> response raised \<times> 's world" where
  "signup sb data w =
     (case getattr_get data of
        Inl e \<Rightarrow> (Inl e, w)
      | Inr d \<Rightarrow>
          (let email = get d ''email'';
               password = get d ''password'';
               first_name = get d ''first_name'';
               last_name = py_or (get d ''last_name'') (JStr '''');
               role = get d ''role''
           in if \<not> py_all [email, password, first_name, role]
              then (Inr (jsonify_error ''All fields are required'' 400), w)
              else (case signup_try sb email password first_name last_name role w of
                      (Inr r, w') \<Rightarrow> (Inr r, w')
                    | (Inl e, w') \<Rightarrow>
                        (case signup_except e w' of (r, w'') \<Rightarrow> (Inr r, w'')))))"

section \<open>POST /login\<close>

text \<open>The body of the \<^verbatim>\<open>try\<close> block of \<^verbatim>\<open>login\<close>. The dict literal of the answer is
  evaluated entry by entry, so the first entry that raises decides the exception.\<close>

definition login_try ::
  "'s supabase_client \<Rightarrow> json \<Rightarrow> json \<Rightarrow> 's world \<Rightarrow> response raised \<times> 's world" where
  "login_try sb email password w =
     (case external (Auth_sign_in_with_password email password)
             (sign_in_with_password sb email password) w of
        (Inl e, w1) \<Rightarrow> (Inl e, w1)
      | (Inr usr, w1) \<Rightarrow>
          (case user usr of
             None \<Rightarrow> (Inl (none_has_no_attribute ''id''), w1)
           | Some u \<Rightarrow>
               (let uid = user_id u in
                case external (Table_select ''*'' uid) (select_eq sb ''*'' uid) w1 of
                  (Inl e, w2) \<Rightarrow> (Inl e, w2)
                | (Inr user_data, w2) \<Rightarrow>
                    (case user_data of
                       [] \<Rightarrow> (Inr (jsonify_error ''User not found in public.users'' 404), w2)
                     | profile # _ \<Rightarrow>
                         (case session usr of
                            None \<Rightarrow> (Inl (none_has_no_attribute ''access_token''), w2)
                          | Some sess \<Rightarrow>
                              (case subscript profile ''first_name'' of
                                 Inl e \<Rightarrow> (Inl e, w2)
                               | Inr first_name \<Rightarrow>
                                   (case subscript profile ''last_name'' of
                                      Inl e \<Rightarrow> (Inl e, w2)
                                    | Inr last_name \<Rightarrow>
                                        (case subscript profile ''role'' of
                                           Inl e \<Rightarrow> (Inl e, w2)
                                         | Inr role \<Rightarrow>
                                             (Inr \<lparr>status = 200,
                                                    body = JObj
                                                      [(''message'', JStr ''Login successful''),
                                                       (''access_token'', JStr (access_token sess)),
                                                       (''user'', JObj
                                                          [(''auth_uid'', JStr uid),
                                                           (''first_name'', first_name),
                                                           (''last_name'', last_name),
                                                           (''role'', role),
                                                           (''email'', JStr (user_email u))])]\<rparr>,
                                              w2)))))))))"

definition login_invalid_credentials :: "string \<Rightarrow> bool" where
  "login_invalid_credentials error_message \<longleftrightarrow>
     contains ''invalid login credentials'' error_message
     \<or> contains ''invalid email or password'' error_message"

definition login_user_not_found :: "string \<Rightarrow> bool" where
  "login_user_not_found error_message \<longleftrightarrow>
     contains ''user not found'' error_message
     \<or> contains ''no user with that email'' error_message"

text \<open>The \<^verbatim>\<open>except Exception as e\<close> block of \<^verbatim>\<open>login\<close>; \<open>e\<close> is \<^verbatim>\<open>str(e)\<close>.\<close>

definition login_except :: "string \<Rightarrow> 's world \<Rightarrow> response \<times> 's world" where
  "login_except e w =
     (let error_message = lower e in
      if login_invalid_credentials error_message
      then (jsonify_error ''Invalid email or password'' 401, w)
      else if login_user_not_found error_message
      then (jsonify_error ''Invalid email or password'' 401, w)
      else (jsonify_error ''An internal server error occurred.'' 500,
            print (''Unexpected server error during login: '' @ e) w))"

text \<open>The route: as in \<^verbatim>\<open>signup\<close>, the two \<^verbatim>\<open>data.get(...)\<close> and the test stand before
  the \<^verbatim>\<open>try\<close>.\<close>

definition login :: "'s supabase_client \<Rightarrow> json \<Rightarrow> 's world \<Rightarrow> response raised \<times> 's world" where
  "login sb data w =
     (case getattr_get data of
        Inl e \<Rightarrow> (Inl e, w)
      | Inr d \<Rightarrow>
          (let email = get d ''email'';
               password = get d ''password''
           in if \<not> truthy email \<or> \<not> truthy password
              then (Inr (jsonify_error ''Email and password required'' 400), w)
              else (case login_try sb email password w of
                      (Inr r, w') \<Rightarrow> (Inr r, w')
                    | (Inl e, w') \<Rightarrow>
                        (case login_except e w' of (r, w'') \<Rightarrow> (Inr r, w'')))))"

section \<open>GET /protected\<close>

text \<open>The body of the \<^verbatim>\<open>try\<close> block of \<^verbatim>\<open>protected_test\<close>; \<open>auth_header\<close> is
  \<^verbatim>\<open>request.headers.get("Authorization")\<close>.\<close>

definition protected_try ::
  "'s supabase_client \<Rightarrow> string option \<Rightarrow> 's world \<Rightarrow> response raised \<times> 's world" where
  "protected_try sb auth_header w =
     (case auth_header of
        None \<Rightarrow> (Inr (jsonify_error ''Missing token'' 401), w)
      | Some h \<Rightarrow>
          (if h = [] then (Inr (jsonify_error ''Missing token'' 401), w)
           else (case index (py_split CHR '' '' h) 1 of
                   Inl e \<Rightarrow> (Inl e, w)
                 | Inr token \<Rightarrow>
                     (case external (Auth_get_user token) (get_user sb token) w of
                        (Inl e, w1) \<Rightarrow> (Inl e, w1)
                      | (Inr None, w1) \<Rightarrow> (Inr (jsonify_error ''Invalid token'' 403), w1)
                      | (Inr (Some usr), w1) \<Rightarrow>
                          (case user usr of
                             None \<Rightarrow> (Inl (none_has_no_attribute ''id''), w1)
                           | Some u \<Rightarrow>
                               (Inr \<lparr>status = 200,
                                      body = JObj [(''message'', JStr ''Token is valid''),
                                                   (''user_id'', JStr (user_id u)),
                                                   (''email'', JStr (user_email u))]\<rparr>,
                                w1))))))"

definition protected_test ::
  "'s supabase_client \<Rightarrow> string option \<Rightarrow> 's world \<Rightarrow> response \<times> 's world" where
  "protected_test sb auth_header w =
     (case protected_try sb auth_header w of
        (Inr r, w') \<Rightarrow> (r, w')
      | (Inl e, w') \<Rightarrow> (jsonify_error e 500, w'))"

section \<open>GET /profile/<auth_uid>\<close>

definition profile :: "'s supabase_client \<Rightarrow> string \<Rightarrow> 's world \<Rightarrow> response \<times> 's world" where
  "profile sb auth_uid w =
     (case external (Table_select_single auth_uid) (select_single sb auth_uid) w of
        (Inl e, w') \<Rightarrow> (jsonify_error e 500, w')
      | (Inr None, w') \<Rightarrow> (jsonify_error ''User not found'' 404, w')
      | (Inr (Some row), w') \<Rightarrow> (\<lparr>status = 200, body = JObj row\<rparr>, w'))"

section \<open>A scripted client\<close>

text \<open>
  A client over a trivial platform state that answers every call with a fixed outcome,
  whatever the arguments: the test double the concrete runs below are made on.
\<close>

definition scripted ::
  "auth_response raised \<Rightarrow> auth_response raised \<Rightarrow> auth_response option raised
     \<Rightarrow> dict list raised \<Rightarrow> dict option raised \<Rightarrow> api_response raised \<Rightarrow> api_response raised
     \<Rightarrow> unit supabase_client" where
  "scripted su si gu sel single upd ins =
     \<lparr>sign_up = (\<lambda>_ _ s. (su, s)),
      sign_in_with_password = (\<lambda>_ _ s. (si, s)),
      get_user = (\<lambda>_ s. (gu, s)),
      select_eq = (\<lambda>_ _ s. (sel, s)),
      select_single = (\<lambda>_ s. (single, s)),
      update_eq = (\<lambda>_ _ s. (upd, s)),
      insert_row = (\<lambda>_ s. (ins, s))\<rparr>"

definition unused :: "'a raised" where
  "unused = Inl ''not scripted''"

definition world0 :: "unit world" where
  "world0 = \<lparr>backend = (), calls = [], printed = []\<rparr>"

text \<open>The request of the specification's concrete scenario, and the identity the platform
  creates for it.\<close>

definition alice :: dict where
  "alice = [(''email'', JStr ''a@x.com''), (''password'', JStr ''p''),
            (''first_name'', JStr ''A''), (''role'', JStr ''candidate'')]"

definition alice_user :: auth_user where
  "alice_user = \<lparr>user_id = ''u-1'', user_email = ''a@x.com''\<rparr>"

definition alice_session :: auth_session where
  "alice_session = \<lparr>access_token = ''t-1''\<rparr>"

text \<open>What \<^verbatim>\<open>str(e)\<close> is when the insert into \<^verbatim>\<open>users\<close> violates the unique constraint
  on \<^verbatim>\<open>auth_uid\<close> (PostgreSQL's SQLSTATE 23505, as the client library reports it).\<close>

definition duplicate_key_message :: string where
  "duplicate_key_message =
     ''{'code': '23505', 'details': 'Key (auth_uid)=(u-1) already exists.', 'hint': None, ''
       @ [CHR 0x27] @ ''message': 'duplicate key value violates unique constraint ''
       @ [CHR 0x22] @ ''users_auth_uid_key'' @ [CHR 0x22] @ [CHR 0x27] @ ''}''"

text \<open>A failure of the platform that no pattern of any route mentions.\<close>

definition upstream_failure :: string where
  "upstream_failure = ''connection to db.internal:5432 refused''"

text \<open>
  A client over a \<^verbatim>\<open>users\<close> table held as a list of rows, for the profile lookup. The
  route asks \<^verbatim>\<open>.select('*').eq('auth_uid', v).single().execute()\<close>; the client library
  answers \<^verbatim>\<open>.single()\<close> with the row when exactly one row matches and raises otherwise
  (PostgREST's PGRST116), and that is what \<open>select_single\<close> does here. The other
  operations are not used by the lookup.
\<close>

definition no_rows_message :: string where
  "no_rows_message =
     ''{'code': 'PGRST116', 'details': 'The result contains 0 rows', 'hint': None, ''
       @ [CHR 0x27] @ ''message': 'JSON object requested, multiple (or no) rows returned'}''"

definition table_client :: "dict list supabase_client" where
  "table_client =
     \<lparr>sign_up = (\<lambda>_ _ rows. (unused, rows)),
      sign_in_with_password = (\<lambda>_ _ rows. (unused, rows)),
      get_user = (\<lambda>_ rows. (unused, rows)),
      select_eq = (\<lambda>_ _ rows. (unused, rows)),
      select_single =
        (\<lambda>v rows.
           (case filter (\<lambda>row. map_of row ''auth_uid'' = Some (JStr v)) rows of
              [row] \<Rightarrow> Inr (Some row)
            | _ \<Rightarrow> Inl no_rows_message,
            rows)),
      update_eq = (\<lambda>_ _ rows. (unused, rows)),
      insert_row = (\<lambda>_ rows. (unused, rows))\<rparr>"

text \<open>The profile row of the concrete scenario.\<close>

definition alice_row :: dict where
  "alice_row = [(''auth_uid'', JStr ''u-1''), (''first_name'', JStr ''A''),
                (''last_name'', JStr ''''), (''role'', JStr ''candidate'')]"

section \<open>Basic facts\<close>

lemma external_eq:
  "f (backend w) = (r, s') \<Longrightarrow> external c f w = (r, w\<lparr>backend := s', calls := calls w @ [c]\<rparr>)"
  by (simp add: external_def)

lemma get_absent: "map_of d k = None \<Longrightarrow> get d k = JNull"
  by (simp add: get_def)

lemma get_Cons_other: "k \<noteq> k' \<Longrightarrow> get ((k', v) # d) k = get d k"
  by (simp add: get_def)



text \<open>\<open>contains\<close> is the substring test.\<close>

lemma contains_iff: "contains p s \<longleftrightarrow> (\<exists>xs ys. s = xs @ p @ ys)"
proof -
  have sw: "startswith s p \<longleftrightarrow> (\<exists>ys. s = p @ ys)" for s p
    by (induction s p rule: startswith.induct) auto
  show ?thesis
  proof (induction s)
    case Nil
    then show ?case by auto
  next
    case (Cons c cs)
    show ?case
    proof
      assume "contains p (c # cs)"
      then consider "startswith (c # cs) p" | "contains p cs" by auto
      then show "\<exists>xs ys. c # cs = xs @ p @ ys"
      proof cases
        case 1
        then obtain ys where "c # cs = p @ ys" using sw by blast
        then have "c # cs = [] @ p @ ys" by simp
        then show ?thesis by blast
      next
        case 2
        then obtain xs ys where "cs = xs @ p @ ys" using Cons.IH by blast
        then have "c # cs = (c # xs) @ p @ ys" by simp
        then show ?thesis by blast
      qed
    next
      assume "\<exists>xs ys. c # cs = xs @ p @ ys"
      then obtain xs ys where e: "c # cs = xs @ p @ ys" by blast
      show "contains p (c # cs)"
      proof (cases xs)
        case Nil
        with e have "startswith (c # cs) p" using sw by auto
        then show ?thesis by simp
      next
        case (Cons x xs')
        with e have "cs = xs' @ p @ ys" by simp
        then have "contains p cs" using Cons.IH by blast
        then show ?thesis by simp
      qed
    qed
  qed
qed

lemma py_split_no_sep: "sep \<notin> set s \<Longrightarrow> py_split sep s = [s]"
  by (induction s) auto

lemmas eval_defs = alice_def alice_user_def alice_session_def get_def py_all_def py_or_def
  scripted_def world0_def unused_def

section \<open>Signup: validation\<close>

lemma signup_valid:
  "py_all [get data ''email'', get data ''password'', get data ''first_name'', get data ''role'']
   \<Longrightarrow> signup sb (JObj data) w =
     (case signup_try sb (get data ''email'') (get data ''password'') (get data ''first_name'')
             (py_or (get data ''last_name'') (JStr [])) (get data ''role'') w of
        (Inr r, w') \<Rightarrow> (Inr r, w')
      | (Inl e, w') \<Rightarrow> (Inr (fst (signup_except e w')), snd (signup_except e w')))"
  by (simp add: signup_def getattr_get_def Let_def split: prod.splits sum.splits)

lemma login_valid:
  "truthy (get data ''email'') \<Longrightarrow> truthy (get data ''password'')
   \<Longrightarrow> login sb (JObj data) w =
     (case login_try sb (get data ''email'') (get data ''password'') w of
        (Inr r, w') \<Rightarrow> (Inr r, w')
      | (Inl e, w') \<Rightarrow> (Inr (fst (login_except e w')), snd (login_except e w')))"
  by (simp add: login_def getattr_get_def Let_def split: prod.splits sum.splits)






section \<open>Signup: the identity platform\<close>

text \<open>
  C10. A validated signup whose sign-up call returns normally with no user object is
  answered with 400 and the error \<^verbatim>\<open>Supabase signup failed to return user data.\<close>; the
  only call made on the client is the sign-up call, so no operation on the \<^verbatim>\<open>users\<close>
  table is performed.
\<close>

theorem signup_no_user_data:
  assumes "py_all [get data ''email'', get data ''password'', get data ''first_name'',
                   get data ''role'']"
    and "sign_up sb (get data ''email'') (get data ''password'') (backend w) = (Inr ur, s')"
    and "user ur = None"
  shows "signup sb (JObj data) w
         = (Inr \<lparr>status = 400,
             body = JObj [(''error'', JStr ''Supabase signup failed to return user data.'')]\<rparr>,
            w\<lparr>backend := s',
              calls := calls w @ [Auth_sign_up (get data ''email'') (get data ''password'')]\<rparr>)"
  using assms(2,3)
  by (simp add: signup_valid [OF assms(1)] signup_try_def external_eq jsonify_error_def)

theorem signup_no_user_data_witness:
  "signup (scripted (Inr \<lparr>user = None, session = None\<rparr>) unused unused unused unused unused unused)
     (JObj alice) world0
   = (Inr \<lparr>status = 400,
       body = JObj [(''error'', JStr ''Supabase signup failed to return user data.'')]\<rparr>,
      \<lparr>backend = (), calls = [Auth_sign_up (JStr ''a@x.com'') (JStr ''p'')], printed = []\<rparr>)"
  using signup_no_user_data
    [where data = alice and w = world0 and s' = "()"
       and ur = "\<lparr>user = None, session = None\<rparr>"
       and sb = "scripted (Inr \<lparr>user = None, session = None\<rparr>) unused unused unused unused
                   unused unused"]
  by (simp add: eval_defs)

text \<open>
  C5. A validated signup whose sign-up call raises an already-exists error (a message that,
  lowercased, contains \<^verbatim>\<open>user already exists\<close> or \<^verbatim>\<open>already registered\<close>) is answered
  with 409 and the error \<^verbatim>\<open>This email is already registered. Please sign in.\<close>
\<close>

theorem signup_existing_email:
  assumes "py_all [get data ''email'', get data ''password'', get data ''first_name'',
                   get data ''role'']"
    and "sign_up sb (get data ''email'') (get data ''password'') (backend w) = (Inl m, s')"
    and "contains ''user already exists'' (lower m) \<or> contains ''already registered'' (lower m)"
  shows "signup sb (JObj data) w
         = (Inr \<lparr>status = 409,
             body = JObj [(''error'', JStr ''This email is already registered. Please sign in.'')]\<rparr>,
            w\<lparr>backend := s',
              calls := calls w @ [Auth_sign_up (get data ''email'') (get data ''password'')]\<rparr>)"
  using assms(2,3)
  by (auto simp add: signup_valid [OF assms(1)] signup_try_def external_eq jsonify_error_def
      signup_except_def signup_existing_user_def Let_def)

theorem signup_existing_email_witness:
  "signup (scripted (Inl ''User already registered'') unused unused unused unused unused unused)
     (JObj alice) world0
   = (Inr \<lparr>status = 409,
       body = JObj [(''error'', JStr ''This email is already registered. Please sign in.'')]\<rparr>,
      \<lparr>backend = (), calls = [Auth_sign_up (JStr ''a@x.com'') (JStr ''p'')], printed = []\<rparr>)"
  using signup_existing_email
    [where data = alice and w = world0 and s' = "()" and m = "''User already registered''"
       and sb = "scripted (Inl ''User already registered'') unused unused unused unused unused
                   unused"]
  by (simp add: eval_defs lower_def lower_char_def)

section \<open>Signup: insert or update\<close>

text \<open>
  C6. A validated signup whose sign-up call yields an identity \<open>user_id u\<close>: when the lookup
  of that \<^verbatim>\<open>auth_uid\<close> returns no row, the profile is inserted, with \<^verbatim>\<open>auth_uid\<close> in the
  payload; when it returns a row, the profile is updated by \<^verbatim>\<open>auth_uid\<close>, the payload being
  \<^verbatim>\<open>first_name\<close>, \<^verbatim>\<open>last_name\<close>, \<^verbatim>\<open>role\<close> only. When the write returns without raising
  and without a truthy \<^verbatim>\<open>error\<close> attribute, the answer is 201 with the message
  \<^verbatim>\<open>User registered successfully\<close> and the \<^verbatim>\<open>auth_uid\<close>.
\<close>

theorem signup_upsert:
  assumes "py_all [get data ''email'', get data ''password'', get data ''first_name'',
                   get data ''role'']"
    and "sign_up sb (get data ''email'') (get data ''password'') (backend w) = (Inr ur, st_auth)"
    and "user ur = Some u"
    and "select_eq sb ''auth_uid'' (user_id u) st_auth = (Inr rows, st_sel)"
    and "payload = [(''first_name'', get data ''first_name''),
                    (''last_name'', py_or (get data ''last_name'') (JStr [])),
                    (''role'', get data ''role'')]"
    and "(if rows = []
          then insert_row sb (payload @ [(''auth_uid'', JStr (user_id u))]) st_sel
          else update_eq sb payload (user_id u) st_sel) = (Inr resp, st_write)"
    and "\<forall>m. error_attr resp = Some (Some m) \<longrightarrow> m = []"
  shows "signup sb (JObj data) w
         = (Inr \<lparr>status = 201,
             body = JObj [(''message'', JStr ''User registered successfully''),
                          (''auth_uid'', JStr (user_id u))]\<rparr>,
            w\<lparr>backend := st_write,
              calls := calls w @
                [Auth_sign_up (get data ''email'') (get data ''password''),
                 Table_select ''auth_uid'' (user_id u),
                 if rows = [] then Table_insert (payload @ [(''auth_uid'', JStr (user_id u))])
                 else Table_update payload (user_id u)]\<rparr>)"
proof (cases "rows = []")
  case True
  with assms(2-7) show ?thesis
    by (simp add: signup_valid [OF assms(1)] signup_try_def external_eq Let_def
        split: option.splits)
next
  case False
  with assms(2-7) show ?thesis
    by (simp add: signup_valid [OF assms(1)] signup_try_def external_eq Let_def
        split: option.splits)
qed

theorem signup_upsert_witness:
  "signup (scripted (Inr \<lparr>user = Some alice_user, session = None\<rparr>) unused unused (Inr [])
             unused unused (Inr \<lparr>error_attr = None\<rparr>)) (JObj alice) world0
   = (Inr \<lparr>status = 201,
       body = JObj [(''message'', JStr ''User registered successfully''),
                    (''auth_uid'', JStr ''u-1'')]\<rparr>,
      \<lparr>backend = (),
       calls = [Auth_sign_up (JStr ''a@x.com'') (JStr ''p''),
                Table_select ''auth_uid'' ''u-1'',
                Table_insert [(''first_name'', JStr ''A''), (''last_name'', JStr ''''),
                              (''role'', JStr ''candidate''), (''auth_uid'', JStr ''u-1'')]],
       printed = []\<rparr>)
   \<and> signup (scripted (Inr \<lparr>user = Some alice_user, session = None\<rparr>) unused unused
               (Inr [[(''auth_uid'', JStr ''u-1'')]]) unused (Inr \<lparr>error_attr = Some None\<rparr>)
               unused) (JObj alice) world0
   = (Inr \<lparr>status = 201,
       body = JObj [(''message'', JStr ''User registered successfully''),
                    (''auth_uid'', JStr ''u-1'')]\<rparr>,
      \<lparr>backend = (),
       calls = [Auth_sign_up (JStr ''a@x.com'') (JStr ''p''),
                Table_select ''auth_uid'' ''u-1'',
                Table_update [(''first_name'', JStr ''A''), (''last_name'', JStr ''''),
                              (''role'', JStr ''candidate'')] ''u-1''],
       printed = []\<rparr>)"
  using signup_upsert
    [where data = alice and w = world0 and st_auth = "()" and st_sel = "()" and st_write = "()"
       and ur = "\<lparr>user = Some alice_user, session = None\<rparr>" and u = alice_user
       and rows = "[]" and resp = "\<lparr>error_attr = None\<rparr>"
       and payload = "[(''first_name'', JStr ''A''), (''last_name'', JStr ''''),
                       (''role'', JStr ''candidate'')]"
       and sb = "scripted (Inr \<lparr>user = Some alice_user, session = None\<rparr>) unused unused
                   (Inr []) unused unused (Inr \<lparr>error_attr = None\<rparr>)"]
    signup_upsert
    [where data = alice and w = world0 and st_auth = "()" and st_sel = "()" and st_write = "()"
       and ur = "\<lparr>user = Some alice_user, session = None\<rparr>" and u = alice_user
       and rows = "[[(''auth_uid'', JStr ''u-1'')]]" and resp = "\<lparr>error_attr = Some None\<rparr>"
       and payload = "[(''first_name'', JStr ''A''), (''last_name'', JStr ''''),
                       (''role'', JStr ''candidate'')]"
       and sb = "scripted (Inr \<lparr>user = Some alice_user, session = None\<rparr>) unused unused
                   (Inr [[(''auth_uid'', JStr ''u-1'')]]) unused
                   (Inr \<lparr>error_attr = Some None\<rparr>) unused"]
  by (simp add: eval_defs)

section \<open>Login\<close>

text \<open>
  C7. A login whose authentication succeeds with an identity and whose lookup in the
  \<^verbatim>\<open>users\<close> table returns no row is answered with 404 and a JSON error body: the body has
  the \<^verbatim>\<open>error\<close> field only, no access token and no user object.
\<close>

theorem login_profile_missing:
  assumes "truthy (get data ''email'')" and "truthy (get data ''password'')"
    and "sign_in_with_password sb (get data ''email'') (get data ''password'') (backend w)
         = (Inr ur, st_auth)"
    and "user ur = Some u"
    and "select_eq sb ''*'' (user_id u) st_auth = (Inr [], st_sel)"
  shows "login sb (JObj data) w
         = (Inr \<lparr>status = 404, body = JObj [(''error'', JStr ''User not found in public.users'')]\<rparr>,
            w\<lparr>backend := st_sel,
              calls := calls w @
                [Auth_sign_in_with_password (get data ''email'') (get data ''password''),
                 Table_select ''*'' (user_id u)]\<rparr>)"
  using assms(3-5)
  by (simp add: login_valid [OF assms(1,2)] login_try_def external_eq jsonify_error_def)

theorem login_profile_missing_witness:
  "login (scripted unused (Inr \<lparr>user = Some alice_user, session = Some alice_session\<rparr>) unused
            (Inr []) unused unused unused) (JObj alice) world0
   = (Inr \<lparr>status = 404, body = JObj [(''error'', JStr ''User not found in public.users'')]\<rparr>,
      \<lparr>backend = (),
       calls = [Auth_sign_in_with_password (JStr ''a@x.com'') (JStr ''p''),
                Table_select ''*'' ''u-1''],
       printed = []\<rparr>)"
  using login_profile_missing
    [where data = alice and w = world0 and st_auth = "()" and st_sel = "()" and u = alice_user
       and ur = "\<lparr>user = Some alice_user, session = Some alice_session\<rparr>"
       and sb = "scripted unused (Inr \<lparr>user = Some alice_user, session = Some alice_session\<rparr>)
                   unused (Inr []) unused unused unused"]
  by (simp add: eval_defs)

lemma login_auth_raise:
  assumes "truthy (get data ''email'')" and "truthy (get data ''password'')"
    and "sign_in_with_password sb (get data ''email'') (get data ''password'') (backend w)
         = (Inl m, s')"
  shows "login sb (JObj data) w
         = (Inr (fst (login_except m (w\<lparr>backend := s',
              calls := calls w @
                [Auth_sign_in_with_password (get data ''email'') (get data ''password'')]\<rparr>))),
            snd (login_except m (w\<lparr>backend := s',
              calls := calls w @
                [Auth_sign_in_with_password (get data ''email'') (get data ''password'')]\<rparr>)))"
  using assms(3)
  by (simp add: login_valid [OF assms(1,2)] login_try_def external_eq)

text \<open>
  C8. Two logins whose authentication fails, one with an invalid-credentials message and
  one with a user-not-found message, get the same answer: 401 with the error
  \<^verbatim>\<open>Invalid email or password\<close>, and nothing is printed for either.
\<close>

theorem login_failure_indistinguishable:
  assumes "truthy (get data1 ''email'')" and "truthy (get data1 ''password'')"
    and "sign_in_with_password sb1 (get data1 ''email'') (get data1 ''password'') (backend w1)
         = (Inl m1, s1)"
    and "login_invalid_credentials (lower m1)"
    and "truthy (get data2 ''email'')" and "truthy (get data2 ''password'')"
    and "sign_in_with_password sb2 (get data2 ''email'') (get data2 ''password'') (backend w2)
         = (Inl m2, s2)"
    and "login_user_not_found (lower m2)"
  shows "fst (login sb1 (JObj data1) w1)
           = Inr \<lparr>status = 401, body = JObj [(''error'', JStr ''Invalid email or password'')]\<rparr>
         \<and> fst (login sb2 (JObj data2) w2) = fst (login sb1 (JObj data1) w1)
         \<and> printed (snd (login sb1 (JObj data1) w1)) = printed w1
         \<and> printed (snd (login sb2 (JObj data2) w2)) = printed w2"
  using assms(4,8)
  by (simp add: login_auth_raise [OF assms(1-3)] login_auth_raise [OF assms(5-7)]
      login_except_def jsonify_error_def Let_def)

theorem login_failure_indistinguishable_witness:
  "fst (login (scripted unused (Inl ''Invalid login credentials'') unused unused unused unused
                 unused) (JObj alice) world0)
     = Inr \<lparr>status = 401, body = JObj [(''error'', JStr ''Invalid email or password'')]\<rparr>
   \<and> fst (login (scripted unused (Inl ''User not found'') unused unused unused unused unused)
            (JObj alice) world0)
     = Inr \<lparr>status = 401, body = JObj [(''error'', JStr ''Invalid email or password'')]\<rparr>
   \<and> printed (snd (login (scripted unused (Inl ''Invalid login credentials'') unused unused
                             unused unused unused) (JObj alice) world0)) = []
   \<and> printed (snd (login (scripted unused (Inl ''User not found'') unused unused unused unused
                             unused) (JObj alice) world0)) = []"
  using login_failure_indistinguishable
    [where ?data1.0 = alice and ?data2.0 = alice and ?w1.0 = world0 and ?w2.0 = world0
       and ?s1.0 = "()" and ?s2.0 = "()"
       and ?m1.0 = "''Invalid login credentials''" and ?m2.0 = "''User not found''"
       and ?sb1.0 = "scripted unused (Inl ''Invalid login credentials'') unused unused unused
                       unused unused"
       and ?sb2.0 = "scripted unused (Inl ''User not found'') unused unused unused unused unused"]
  by (simp add: eval_defs login_invalid_credentials_def login_user_not_found_def lower_def
      lower_char_def)

section \<open>Profile lookup\<close>

text \<open>What the route answers, by what the lookup yields.\<close>

lemma profile_lookup:
  "(select_single sb auth_uid (backend w) = (Inr None, s')
      \<longrightarrow> profile sb auth_uid w
          = (\<lparr>status = 404, body = JObj [(''error'', JStr ''User not found'')]\<rparr>,
             w\<lparr>backend := s', calls := calls w @ [Table_select_single auth_uid]\<rparr>))
   \<and> (select_single sb auth_uid (backend w) = (Inr (Some row), s')
      \<longrightarrow> profile sb auth_uid w
          = (\<lparr>status = 200, body = JObj row\<rparr>,
             w\<lparr>backend := s', calls := calls w @ [Table_select_single auth_uid]\<rparr>))"
  by (simp add: profile_def external_eq jsonify_error_def)

text \<open>On the table-backed client, a stored row is answered with 200 and the row as it is
  stored.\<close>

lemma profile_stored_row:
  "filter (\<lambda>r. map_of r ''auth_uid'' = Some (JStr auth_uid)) (backend w) = [row] \<Longrightarrow>
   profile table_client auth_uid w
   = (\<lparr>status = 200, body = JObj row\<rparr>,
      w\<lparr>calls := calls w @ [Table_select_single auth_uid]\<rparr>)"
  by (simp add: profile_def external_def table_client_def)

text \<open>On the table-backed client, an \<^verbatim>\<open>auth_uid\<close> without a row is answered with 500 and
  the client's message: the test \<^verbatim>\<open>response.data is None\<close> is not reached.\<close>

lemma profile_no_row:
  "filter (\<lambda>r. map_of r ''auth_uid'' = Some (JStr auth_uid)) (backend w) = [] \<Longrightarrow>
   profile table_client auth_uid w
   = (\<lparr>status = 500, body = JObj [(''error'', JStr no_rows_message)]\<rparr>,
      w\<lparr>calls := calls w @ [Table_select_single auth_uid]\<rparr>)"
  by (simp add: profile_def external_def table_client_def jsonify_error_def)

text \<open>
  C9. \<^verbatim>\<open>GET /profile/u-404\<close> on a \<^verbatim>\<open>users\<close> table that holds the row of \<^verbatim>\<open>u-1\<close> only:
  no row has that \<^verbatim>\<open>auth_uid\<close>, the single-row lookup raises, and the answer is 500 with
  the client's message as the \<^verbatim>\<open>error\<close> string, not 404. \<^verbatim>\<open>GET /profile/u-1\<close> on the same
  table is answered with 200 and the stored row.
\<close>

theorem profile_absent_row:
  "profile table_client ''u-404'' \<lparr>backend = [alice_row], calls = [], printed = []\<rparr>
   = (\<lparr>status = 500, body = JObj [(''error'', JStr no_rows_message)]\<rparr>,
      \<lparr>backend = [alice_row], calls = [Table_select_single ''u-404''], printed = []\<rparr>)
   \<and> profile table_client ''u-1'' \<lparr>backend = [alice_row], calls = [], printed = []\<rparr>
   = (\<lparr>status = 200, body = JObj alice_row\<rparr>,
      \<lparr>backend = [alice_row], calls = [Table_select_single ''u-1''], printed = []\<rparr>)"
  by (simp add: profile_def external_def table_client_def jsonify_error_def alice_row_def)

section \<open>Signup: a lost insert race\<close>

text \<open>
  C3. The signup of the concrete scenario, on a platform where the identity is created, the
  lookup finds no profile row and the insert then raises the unique-constraint violation of
  the lost race: the insert path is taken, the message matches none of the patterns answered
  with 409, and the answer is 500 with the generic registration error.
\<close>

theorem signup_duplicate_profile_insert:
  "signup (scripted (Inr \<lparr>user = Some alice_user, session = None\<rparr>) unused unused (Inr [])
             unused unused (Inl duplicate_key_message)) (JObj alice) world0
   = (Inr \<lparr>status = 500,
       body = JObj [(''error'', JStr ''An internal server error occurred during registration.'')]\<rparr>,
      \<lparr>backend = (),
       calls = [Auth_sign_up (JStr ''a@x.com'') (JStr ''p''),
                Table_select ''auth_uid'' ''u-1'',
                Table_insert [(''first_name'', JStr ''A''), (''last_name'', JStr ''''),
                              (''role'', JStr ''candidate''), (''auth_uid'', JStr ''u-1'')]],
       printed = [''Unexpected server-side error during signup: '' @ duplicate_key_message]\<rparr>)"
  by (simp add: eval_defs duplicate_key_message_def signup_def getattr_get_def signup_try_def
      signup_except_def signup_existing_user_def signup_client_library_error_def lower_def
      lower_char_def external_def print_def jsonify_error_def Let_def)

section \<open>Unclassified failures\<close>

text \<open>In \<^verbatim>\<open>signup\<close> and \<^verbatim>\<open>login\<close> a message that no pattern matches is printed and
  answered with a fixed error.\<close>

lemma signup_except_unclassified:
  "\<not> signup_existing_user (lower m) \<Longrightarrow> \<not> signup_client_library_error m \<Longrightarrow>
   signup_except m w
   = (\<lparr>status = 500,
       body = JObj [(''error'', JStr ''An internal server error occurred during registration.'')]\<rparr>,
      w\<lparr>printed := printed w @ [''Unexpected server-side error during signup: '' @ m]\<rparr>)"
  by (simp add: signup_except_def jsonify_error_def print_def Let_def)

lemma login_except_unclassified:
  "\<not> login_invalid_credentials (lower m) \<Longrightarrow> \<not> login_user_not_found (lower m) \<Longrightarrow>
   login_except m w
   = (\<lparr>status = 500, body = JObj [(''error'', JStr ''An internal server error occurred.'')]\<rparr>,
      w\<lparr>printed := printed w @ [''Unexpected server error during login: '' @ m]\<rparr>)"
  by (simp add: login_except_def jsonify_error_def print_def Let_def)

text \<open>\<^verbatim>\<open>profile\<close> and \<^verbatim>\<open>protected_test\<close> answer any exception with its message.\<close>

lemma profile_raise:
  "select_single sb auth_uid (backend w) = (Inl m, s') \<Longrightarrow>
   profile sb auth_uid w
   = (\<lparr>status = 500, body = JObj [(''error'', JStr m)]\<rparr>,
      w\<lparr>backend := s', calls := calls w @ [Table_select_single auth_uid]\<rparr>)"
  by (simp add: profile_def external_eq jsonify_error_def)

lemma protected_raise:
  "index (py_split CHR '' '' h) 1 = Inr token \<Longrightarrow> h \<noteq> [] \<Longrightarrow>
   get_user sb token (backend w) = (Inl m, s') \<Longrightarrow>
   protected_test sb (Some h) w
   = (\<lparr>status = 500, body = JObj [(''error'', JStr m)]\<rparr>,
      w\<lparr>backend := s', calls := calls w @ [Auth_get_user token]\<rparr>)"
  by (simp add: protected_test_def protected_try_def external_eq jsonify_error_def)

text \<open>
  C2. A failure message of the platform that matches no pattern of \<^verbatim>\<open>signup\<close> or
  \<^verbatim>\<open>login\<close>: when the profile lookup raises it, \<^verbatim>\<open>GET /profile/u-1\<close> is answered with
  500 and that message as the \<^verbatim>\<open>error\<close> string, and nothing is printed; when the token
  check raises it, \<^verbatim>\<open>GET /protected\<close> does the same.
\<close>

theorem raw_message_reaches_caller:
  "\<not> signup_existing_user (lower upstream_failure)
   \<and> \<not> signup_client_library_error upstream_failure
   \<and> \<not> login_invalid_credentials (lower upstream_failure)
   \<and> \<not> login_user_not_found (lower upstream_failure)
   \<and> profile (scripted unused unused unused unused (Inl upstream_failure) unused unused)
        ''u-1'' world0
      = (\<lparr>status = 500, body = JObj [(''error'', JStr upstream_failure)]\<rparr>,
         \<lparr>backend = (), calls = [Table_select_single ''u-1''], printed = []\<rparr>)
   \<and> protected_test (scripted unused unused (Inl upstream_failure) unused unused unused unused)
        (Some ''Bearer t-1'') world0
      = (\<lparr>status = 500, body = JObj [(''error'', JStr upstream_failure)]\<rparr>,
         \<lparr>backend = (), calls = [Auth_get_user ''t-1''], printed = []\<rparr>)"
  by (simp add: eval_defs upstream_failure_def signup_existing_user_def
      signup_client_library_error_def login_invalid_credentials_def login_user_not_found_def
      lower_def lower_char_def profile_def protected_test_def protected_try_def external_def
      jsonify_error_def index_def)

section \<open>The Authorization header\<close>

text \<open>Without the header, or with an empty one, the answer is 401.\<close>

lemma protected_missing_header:
  "protected_test sb None w
   = (\<lparr>status = 401, body = JObj [(''error'', JStr ''Missing token'')]\<rparr>, w)"
  "protected_test sb (Some []) w
   = (\<lparr>status = 401, body = JObj [(''error'', JStr ''Missing token'')]\<rparr>, w)"
  by (simp_all add: protected_test_def protected_try_def jsonify_error_def)

text \<open>A header without a space has no second piece: the IndexError is answered with 500.\<close>

lemma protected_no_space:
  "h \<noteq> [] \<Longrightarrow> CHR '' '' \<notin> set h \<Longrightarrow>
   protected_test sb (Some h) w
   = (\<lparr>status = 500, body = JObj [(''error'', JStr ''list index out of range'')]\<rparr>, w)"
  by (simp add: protected_test_def protected_try_def jsonify_error_def py_split_no_sep index_def)

text \<open>
  C1. \<^verbatim>\<open>GET /protected\<close> with the header \<^verbatim>\<open>Authorization: Bearer\<close> (a scheme and no
  token segment) is answered with 500 and the error \<^verbatim>\<open>list index out of range\<close>, on every
  client and without any call on it.
\<close>

theorem protected_malformed_header:
  "protected_test sb (Some ''Bearer'') w
   = (\<lparr>status = 500, body = JObj [(''error'', JStr ''list index out of range'')]\<rparr>, w)"
  by (simp add: protected_test_def protected_try_def jsonify_error_def index_def)

end
